theory Spec2Isabelle
  imports Complex_Main "HOL-Library.Word"
begin

section \<open>Python values, exceptions and responses\<close>

text \<open>
  The values \<open>json.loads\<close> produces. A Python \<open>dict\<close> is an association list in key
  order whose lookup is \<open>map_of\<close>; \<open>None\<close> is \<open>JNull\<close>. Strings are byte strings
  (a header is decoded as latin-1, one character per byte).
\<close>

datatype json =
    JNull
  | JBool bool
  | JInt int
  | JFloat real
  | JStr string
  | JArr "json list"
  | JObj "(string \<times> json) list"

text \<open>
  The exceptions of \<open>main.py\<close>. \<open>HTTPException\<close> carries the status code and the
  detail; every other exception is uncaught and reaches the framework.
\<close>

datatype py_exn =
    HTTPException nat string
  | AttributeError
  | TypeError
  | KeyError string
  | JSONDecodeError
  | TransportError

record response =
  status_code :: nat
  headers :: "(string \<times> string) list"
  content :: json

type_synonym outcome = "py_exn + response"

fun bind_exn :: "py_exn + 'a \<Rightarrow> ('a \<Rightarrow> py_exn + 'b) \<Rightarrow> py_exn + 'b" where
  "bind_exn (Inl e) f = Inl e"
| "bind_exn (Inr v) f = f v"

text \<open>
  The status a caller sees: the response's own, the code of an \<open>HTTPException\<close>, and
  500 for an exception no handler catches.
\<close>

fun http_status :: "outcome \<Rightarrow> nat" where
  "http_status (Inr r) = status_code r"
| "http_status (Inl (HTTPException c d)) = c"
| "http_status (Inl e) = 500"

section \<open>The process environment\<close>

record up_request =
  http_method :: string
  url :: string
  req_headers :: "(string \<times> string) list"
  json_body :: json

record up_response =
  up_status :: nat
  up_text :: string
  up_headers :: "(string \<times> string) list"

text \<open>
  What \<open>main.py\<close> reads from outside itself: the environment variables
  (\<open>os.getenv\<close> gives \<open>None\<close> for one that is not set), and the library functions it
  calls, taken as parameters:
  \<^item> \<open>hmac_sha256 key msg\<close> is the 256-bit digest of
    \<open>hmac.new(key, msg, hashlib.sha256)\<close>;
  \<^item> \<open>json_loads\<close> is \<open>json.loads\<close>, \<open>None\<close> where it raises;
  \<^item> \<open>py_repr\<close> is \<open>str\<close> on floats, lists and dicts;
  \<^item> \<open>upstream\<close> is the tracker as the \<open>httpx\<close> client sees it, \<open>None\<close> where the
    client raises.
\<close>

record env =
  GITHUB_TOKEN :: "string option"
  GITHUB_OWNER :: "string option"
  GITHUB_REPO :: "string option"
  WEBHOOK_SECRET :: "string option"
  hmac_sha256 :: "string \<Rightarrow> string \<Rightarrow> 256 word"
  json_loads :: "string \<Rightarrow> json option"
  py_repr :: "json \<Rightarrow> string"
  upstream :: "up_request \<Rightarrow> up_response option"

section \<open>Formatting\<close>

definition digit_char :: "nat \<Rightarrow> char" where
  "digit_char n = ''0123456789abcdef'' ! n"

fun str_nat :: "nat \<Rightarrow> string" where
  "str_nat n = (if n < 10 then [digit_char n] else str_nat (n div 10) @ [digit_char (n mod 10)])"

declare str_nat.simps [simp del]

definition str_int :: "int \<Rightarrow> string" where
  "str_int i = (if i < 0 then CHR ''-'' # str_nat (nat (- i)) else str_nat (nat i))"

text \<open>\<open>str(v)\<close>, as an f-string applies it.\<close>

definition py_str :: "env \<Rightarrow> json \<Rightarrow> string" where
  "py_str e v =
     (case v of
        JNull \<Rightarrow> ''None''
      | JBool b \<Rightarrow> (if b then ''True'' else ''False'')
      | JInt i \<Rightarrow> str_int i
      | JStr s \<Rightarrow> s
      | _ \<Rightarrow> py_repr e v)"

definition str_opt :: "string option \<Rightarrow> string" where
  "str_opt v = (case v of None \<Rightarrow> ''None'' | Some s \<Rightarrow> s)"

text \<open>\<open>HMAC.hexdigest()\<close>: the 64 lowercase hexadecimal digits, most significant first.\<close>

definition hexdigest :: "256 word \<Rightarrow> string" where
  "hexdigest w = map (\<lambda>i. digit_char (unat (take_bit 4 (drop_bit (4 * (63 - i)) w)))) [0..<64]"

section \<open>Dictionary and sequence access\<close>

text \<open>\<open>d[k]\<close>: \<open>KeyError\<close> on a dict without the key, \<open>TypeError\<close> on anything else.\<close>

definition subscript :: "json \<Rightarrow> string \<Rightarrow> py_exn + json" where
  "subscript d k =
     (case d of
        JObj kvs \<Rightarrow> (case map_of kvs k of None \<Rightarrow> Inl (KeyError k) | Some v \<Rightarrow> Inr v)
      | _ \<Rightarrow> Inl TypeError)"

text \<open>\<open>d.get(k, dflt)\<close>: only a dict has \<open>get\<close>.\<close>

definition dict_get :: "json \<Rightarrow> string \<Rightarrow> json \<Rightarrow> py_exn + json" where
  "dict_get d k dflt =
     (case d of
        JObj kvs \<Rightarrow> Inr (case map_of kvs k of None \<Rightarrow> dflt | Some v \<Rightarrow> v)
      | _ \<Rightarrow> Inl AttributeError)"

text \<open>
  \<open>for x in v\<close>: a list gives its elements, a dict its keys, a string its characters;
  nothing else is iterable.
\<close>

definition py_iter :: "json \<Rightarrow> py_exn + json list" where
  "py_iter v =
     (case v of
        JArr xs \<Rightarrow> Inr xs
      | JObj kvs \<Rightarrow> Inr (map (\<lambda>kv. JStr (fst kv)) kvs)
      | JStr s \<Rightarrow> Inr (map (\<lambda>c. JStr [c]) s)
      | _ \<Rightarrow> Inl TypeError)"

text \<open>The list comprehension of \<open>extract_labels\<close>: it stops at the first exception.\<close>

fun label_names :: "json list \<Rightarrow> py_exn + json list" where
  "label_names [] = Inr []"
| "label_names (label # rest) =
     bind_exn (subscript label ''name'') (\<lambda>n.
     bind_exn (label_names rest) (\<lambda>ns. Inr (n # ns)))"

definition extract_labels :: "json \<Rightarrow> py_exn + json" where
  "extract_labels issue_data =
     bind_exn (dict_get issue_data ''labels'' (JArr [])) (\<lambda>ls.
     bind_exn (py_iter ls) (\<lambda>xs.
     bind_exn (label_names xs) (\<lambda>ns. Inr (JArr ns))))"

section \<open>Webhook event storage and verification\<close>

text \<open>
  \<open>hmac.compare_digest\<close> on two \<open>str\<close>: both must be ASCII, else it raises
  \<open>TypeError\<close>; on ASCII strings it is equality.
\<close>

definition is_ascii :: "string \<Rightarrow> bool" where
  "is_ascii s = list_all (\<lambda>c. (of_char c :: nat) < 128) s"

definition compare_digest :: "string \<Rightarrow> string \<Rightarrow> py_exn + bool" where
  "compare_digest a b = (if is_ascii a \<and> is_ascii b then Inr (a = b) else Inl TypeError)"

text \<open>
  The string \<open>verify_signature\<close> compares the header with:
  \<open>f"sha256={computed}"\<close>. The secret is held as the bytes \<open>encode()\<close> gives.
\<close>

definition expected_signature :: "env \<Rightarrow> string \<Rightarrow> string \<Rightarrow> string" where
  "expected_signature e secret body = ''sha256='' @ hexdigest (hmac_sha256 e secret body)"

text \<open>
  \<open>verify_signature\<close>. \<open>not signature\<close> holds of \<open>None\<close> and of the empty string.
  \<open>WEBHOOK_SECRET.encode()\<close> raises \<open>AttributeError\<close> when the variable is not set.
\<close>

definition verify_signature :: "env \<Rightarrow> string option \<Rightarrow> string \<Rightarrow> py_exn + bool" where
  "verify_signature e signature body =
     (case signature of
        None \<Rightarrow> Inr False
      | Some sg \<Rightarrow>
          if sg = [] then Inr False
          else (case WEBHOOK_SECRET e of
                  None \<Rightarrow> Inl AttributeError
                | Some secret \<Rightarrow> compare_digest (expected_signature e secret body) sg))"

record event_record =
  id' :: "string option"
  event :: "string option"
  action :: json
  issue_number :: json
  timestamp :: json

text \<open>A POST /webhook request: the raw body and the three headers (\<open>None\<close> when absent).\<close>

record webhook_request =
  body :: string
  x_hub_signature_256 :: "string option"
  x_github_event :: "string option"
  x_github_delivery :: "string option"

text \<open>The dict literal of lines 186 to 192, its entries evaluated in order.\<close>

definition make_event_record :: "webhook_request \<Rightarrow> json \<Rightarrow> py_exn + event_record" where
  "make_event_record req payload =
     bind_exn (dict_get payload ''action'' JNull) (\<lambda>a.
     bind_exn (dict_get payload ''issue'' (JObj [])) (\<lambda>i.
     bind_exn (dict_get i ''number'' JNull) (\<lambda>n.
     bind_exn (dict_get payload ''repository'' (JObj [])) (\<lambda>r.
     bind_exn (dict_get r ''updated_at'' JNull) (\<lambda>t.
       Inr \<lparr>id' = x_github_delivery req, event = x_github_event req,
            action = a, issue_number = n, timestamp = t\<rparr>)))))"

definition no_content :: response where
  "no_content = \<lparr>status_code = 204, headers = [], content = JNull\<rparr>"

text \<open>
  \<open>webhook_handler\<close>: the outcome and the \<open>events_store\<close> it leaves. Only the last
  branch appends.
\<close>

definition webhook_handler ::
  "env \<Rightarrow> event_record list \<Rightarrow> webhook_request \<Rightarrow> outcome \<times> event_record list" where
  "webhook_handler e events_store req =
     (case verify_signature e (x_hub_signature_256 req) (body req) of
        Inl ex \<Rightarrow> (Inl ex, events_store)
      | Inr False \<Rightarrow> (Inl (HTTPException 401 ''Invalid signature''), events_store)
      | Inr True \<Rightarrow>
          if x_github_event req \<notin> set [Some ''issues'', Some ''issue_comment'', Some ''ping'']
          then (Inl (HTTPException 400 ''Unsupported event''), events_store)
          else (case json_loads e (body req) of
                  None \<Rightarrow> (Inl JSONDecodeError, events_store)
                | Some payload \<Rightarrow>
                    if list_ex (\<lambda>ev. id' ev = x_github_delivery req) events_store
                    then (Inr no_content, events_store)
                    else (case make_event_record req payload of
                            Inl ex \<Rightarrow> (Inl ex, events_store)
                          | Inr event_record \<Rightarrow>
                              (Inr no_content, events_store @ [event_record]))))"


text \<open>
  \<open>xs[start:]\<close>: a negative start counts from the end, and a start outside the list is
  moved to its nearer end.
\<close>

definition slice_from :: "'a list \<Rightarrow> int \<Rightarrow> 'a list" where
  "slice_from xs start =
     (let n = int (length xs);
          s = (if start < 0 then max (start + n) 0 else min start n)
      in drop (nat s) xs)"

text \<open>GET /events: \<open>limit\<close> is the query parameter, \<open>None\<close> when the request has none.\<close>

definition get_events :: "event_record list \<Rightarrow> int option \<Rightarrow> event_record list" where
  "get_events events_store limit_param =
     (let limit = (case limit_param of None \<Rightarrow> 10 | Some l \<Rightarrow> l)
      in slice_from events_store (- limit))"

section \<open>The issue endpoints\<close>

text \<open>
  A handler that calls the tracker gives the outbound requests it made, in order, and
  its outcome.
\<close>

type_synonym handled = "up_request list \<times> outcome"

definition HEADERS :: "env \<Rightarrow> (string \<times> string) list" where
  "HEADERS e =
     [(''Authorization'', ''Bearer '' @ str_opt (GITHUB_TOKEN e)),
      (''Accept'', ''application/vnd.github+json'')]"

definition issues_url :: "env \<Rightarrow> string" where
  "issues_url e =
     ''https://api.github.com/repos/'' @ str_opt (GITHUB_OWNER e) @ ''/''
       @ str_opt (GITHUB_REPO e) @ ''/issues''"

text \<open>\<open>r.json()\<close> of an upstream response.\<close>

definition response_json :: "env \<Rightarrow> up_response \<Rightarrow> py_exn + json" where
  "response_json e r =
     (case json_loads e (up_text r) of None \<Rightarrow> Inl JSONDecodeError | Some v \<Rightarrow> Inr v)"

text \<open>The request models, as pydantic hands them to the handlers.\<close>

record IssueCreate =
  title :: string
  issue_body :: "string option"
  labels :: "string list option"

text \<open>
  \<open>IssueUpdate\<close>: a field is unset (\<open>None\<close>), or set to null (\<open>Some None\<close>) or to a
  string; \<open>dict(exclude_unset=True)\<close> keeps the fields that are set.
\<close>

record IssueUpdate =
  upd_title :: "string option option"
  upd_body :: "string option option"
  upd_state :: "string option option"

definition json_of_opt :: "string option \<Rightarrow> json" where
  "json_of_opt v = (case v of None \<Rightarrow> JNull | Some s \<Rightarrow> JStr s)"

definition set_field :: "string \<Rightarrow> string option option \<Rightarrow> (string \<times> json) list" where
  "set_field k v = (case v of None \<Rightarrow> [] | Some x \<Rightarrow> [(k, json_of_opt x)])"

definition exclude_unset :: "IssueUpdate \<Rightarrow> (string \<times> json) list" where
  "exclude_unset issue =
     set_field ''title'' (upd_title issue) @ set_field ''body'' (upd_body issue)
       @ set_field ''state'' (upd_state issue)"

text \<open>The body of the 201 branch of \<open>create_issue\<close>, from the upstream issue object.\<close>

definition created_response :: "env \<Rightarrow> json \<Rightarrow> outcome" where
  "created_response e data =
     bind_exn (subscript data ''number'') (\<lambda>loc.
     bind_exn (subscript data ''number'') (\<lambda>number.
     bind_exn (subscript data ''title'') (\<lambda>ttl.
     bind_exn (dict_get data ''body'' JNull) (\<lambda>bdy.
     bind_exn (subscript data ''state'') (\<lambda>st.
     bind_exn (extract_labels data) (\<lambda>lbls.
     bind_exn (subscript data ''html_url'') (\<lambda>html_url.
     bind_exn (subscript data ''created_at'') (\<lambda>created_at.
     bind_exn (subscript data ''updated_at'') (\<lambda>updated_at.
       Inr \<lparr>status_code = 201,
            headers = [(''Location'', ''/issues/'' @ py_str e loc)],
            content = JObj
              [(''number'', number), (''title'', ttl), (''body'', bdy), (''state'', st),
               (''labels'', lbls), (''html_url'', html_url),
               (''created_at'', created_at), (''updated_at'', updated_at)]\<rparr>)))))))))"

definition create_request :: "env \<Rightarrow> IssueCreate \<Rightarrow> up_request" where
  "create_request e issue =
     \<lparr>http_method = ''POST'', url = issues_url e, req_headers = HEADERS e,
      json_body = JObj
        [(''title'', JStr (title issue)),
         (''body'', json_of_opt (issue_body issue)),
         (''labels'', JArr (map JStr (case labels issue of None \<Rightarrow> [] | Some ls \<Rightarrow> ls)))]\<rparr>"

text \<open>POST /issues.\<close>

definition create_issue :: "env \<Rightarrow> IssueCreate \<Rightarrow> handled" where
  "create_issue e issue =
     (let rq = create_request e issue in
      (case upstream e rq of
         None \<Rightarrow> ([rq], Inl TransportError)
       | Some r \<Rightarrow>
           ([rq],
            if up_status r = 201 then bind_exn (response_json e r) (created_response e)
            else if up_status r = 401 then Inl (HTTPException 401 ''Unauthorized'')
            else Inl (HTTPException 400 (up_text r)))))"

definition update_request :: "env \<Rightarrow> int \<Rightarrow> IssueUpdate \<Rightarrow> up_request" where
  "update_request e number issue =
     \<lparr>http_method = ''PATCH'', url = issues_url e @ ''/'' @ str_int number,
      req_headers = HEADERS e, json_body = JObj (exclude_unset issue)\<rparr>"

text \<open>The detail of the 400 of \<open>update_issue\<close>; \<open>CHR 0x27\<close> is the single quote.\<close>

definition state_detail :: string where
  "state_detail =
     ''state must be '' @ [CHR 0x27] @ ''open'' @ [CHR 0x27] @ '' or ''
       @ [CHR 0x27] @ ''closed'' @ [CHR 0x27]"

text \<open>PATCH /issues/{number}. The state check comes before the client is opened.\<close>

definition update_issue :: "env \<Rightarrow> int \<Rightarrow> IssueUpdate \<Rightarrow> handled" where
  "update_issue e number issue =
     (let update_payload = exclude_unset issue in
      if ''state'' \<in> fst ` set update_payload
         \<and> map_of update_payload ''state'' \<notin> set [Some (JStr ''open''), Some (JStr ''closed'')]
      then ([], Inl (HTTPException 400 state_detail))
      else
        (let rq = update_request e number issue in
         (case upstream e rq of
            None \<Rightarrow> ([rq], Inl TransportError)
          | Some r \<Rightarrow>
              ([rq],
               if up_status r = 200
               then bind_exn (response_json e r)
                      (\<lambda>v. Inr \<lparr>status_code = 200, headers = [], content = v\<rparr>)
               else if up_status r = 404 then Inl (HTTPException 404 ''Issue not found'')
               else Inl (HTTPException (up_status r) (up_text r))))))"

section \<open>Example inputs\<close>

text \<open>
  A webhook delivery and an upstream issue object, each as the bytes on the wire and as
  the value \<open>json.loads\<close> reads from them; \<open>example_loads\<close> is \<open>json.loads\<close> on these
  two documents.
\<close>

definition example_body :: string where
  \<open>example_body =
     ''{"action":"opened","issue":{"number":7},"repository":{"updated_at":"2024-05-01T10:00:00Z"}}''\<close>

definition example_payload :: json where
  "example_payload =
     JObj [(''action'', JStr ''opened''),
           (''issue'', JObj [(''number'', JInt 7)]),
           (''repository'', JObj [(''updated_at'', JStr ''2024-05-01T10:00:00Z'')])]"

definition example_issue_text :: string where
  \<open>example_issue_text =
     ''{"number":42,"title":"bug","body":null,"state":"open","labels":[{"name":"ui"}],"html_url":"https://github.com/octo/demo/issues/42","created_at":"2024-05-01T10:00:00Z","updated_at":"2024-05-01T10:00:05Z"}''\<close>

definition example_issue_json :: json where
  "example_issue_json =
     JObj [(''number'', JInt 42), (''title'', JStr ''bug''), (''body'', JNull),
           (''state'', JStr ''open''), (''labels'', JArr [JObj [(''name'', JStr ''ui'')]]),
           (''html_url'', JStr ''https://github.com/octo/demo/issues/42''),
           (''created_at'', JStr ''2024-05-01T10:00:00Z''),
           (''updated_at'', JStr ''2024-05-01T10:00:05Z'')]"

definition example_loads :: "string \<Rightarrow> json option" where
  "example_loads s =
     (if s = example_body then Some example_payload
      else if s = example_issue_text then Some example_issue_json
      else None)"

text \<open>
  An environment with every variable set, over any digest function \<open>h\<close> and any
  tracker \<open>u\<close>.
\<close>

definition example_env ::
  "(string \<Rightarrow> string \<Rightarrow> 256 word) \<Rightarrow> (up_request \<Rightarrow> up_response option) \<Rightarrow> env" where
  "example_env h u =
     \<lparr>GITHUB_TOKEN = Some ''ghp_token'', GITHUB_OWNER = Some ''octo'',
      GITHUB_REPO = Some ''demo'', WEBHOOK_SECRET = Some ''s3cret'',
      hmac_sha256 = h, json_loads = example_loads, py_repr = (\<lambda>v. ''''),
      upstream = u\<rparr>"

text \<open>A tracker that answers every request with the same status and body.\<close>

definition answers :: "nat \<Rightarrow> string \<Rightarrow> up_request \<Rightarrow> up_response option" where
  "answers code txt rq = Some \<lparr>up_status = code, up_text = txt, up_headers = []\<rparr>"

definition example_event :: "string option \<Rightarrow> event_record" where
  "example_event d =
     \<lparr>id' = d, event = Some ''issues'', action = JStr ''opened'',
      issue_number = JInt 7, timestamp = JStr ''2024-05-01T10:00:00Z''\<rparr>"


definition example_issue :: IssueCreate where
  "example_issue = \<lparr>title = ''bug'', issue_body = None, labels = None\<rparr>"



section \<open>Digests and their rendering\<close>

lemma digit_char_ascii: "n < 16 \<Longrightarrow> (of_char (digit_char n) :: nat) < 128"
proof -
  assume n: "n < 16"
  have all: "\<forall>c \<in> set ''0123456789abcdef''. (of_char c :: nat) < 128" by simp
  have "''0123456789abcdef'' ! n \<in> set ''0123456789abcdef''"
    by (rule nth_mem) (use n in simp)
  with all show ?thesis unfolding digit_char_def by blast
qed

lemma digit_char_inj: "m < 16 \<Longrightarrow> n < 16 \<Longrightarrow> digit_char m = digit_char n \<Longrightarrow> m = n"
proof -
  assume a: "m < 16" "n < 16" "digit_char m = digit_char n"
  have d: "distinct ''0123456789abcdef''" by simp
  have l: "length ''0123456789abcdef'' = 16" by simp
  from a d l show ?thesis unfolding digit_char_def
    by (metis nth_eq_iff_index_eq)
qed

lemma nibble_lt: "unat (take_bit 4 (w :: 256 word)) < 16"
proof -
  have "unat (take_bit 4 w) = take_bit 4 (unat w)" by (simp add: unsigned_take_bit_eq)
  also have "\<dots> < 2 ^ 4" by (rule take_bit_nat_less_exp)
  finally show ?thesis by simp
qed

lemma length_hexdigest: "length (hexdigest w) = 64"
  by (simp add: hexdigest_def)

lemma is_ascii_hexdigest: "is_ascii (hexdigest w)"
  by (simp add: is_ascii_def hexdigest_def list_all_iff digit_char_ascii nibble_lt)

lemma hexdigest_nibbles:
  assumes "hexdigest a = hexdigest b" and "j < 64"
  shows "take_bit 4 (drop_bit (4 * j) a) = take_bit 4 (drop_bit (4 * j) b)"
proof -
  let ?f = "\<lambda>w i. digit_char (unat (take_bit 4 (drop_bit (4 * (63 - i)) w)))"
  have "map (?f a) [0..<64] = map (?f b) [0..<64]"
    using assms(1) by (simp add: hexdigest_def)
  moreover have "63 - j \<in> set [0..<64]" by simp
  ultimately have "?f a (63 - j) = ?f b (63 - j)"
    by (meson map_eq_conv)
  moreover have "63 - (63 - j) = j" using assms(2) by simp
  ultimately have "digit_char (unat (take_bit 4 (drop_bit (4 * j) a)))
      = digit_char (unat (take_bit 4 (drop_bit (4 * j) b)))" by simp
  then have "unat (take_bit 4 (drop_bit (4 * j) a)) = unat (take_bit 4 (drop_bit (4 * j) b))"
    by (rule digit_char_inj [OF nibble_lt nibble_lt])
  then show ?thesis by (simp add: word_unat_eq_iff)
qed

text \<open>Two digests with the same sixty-four digits agree on every bit.\<close>

lemma hexdigest_inj: "hexdigest a = hexdigest b \<Longrightarrow> a = b"
proof (rule bit_word_eqI)
  fix n assume eq: "hexdigest a = hexdigest b" and n: "n < LENGTH(256)"
  have j: "n div 4 < 64" using n by simp
  have nn: "4 * (n div 4) + n mod 4 = n" by simp
  have "bit a n = bit (take_bit 4 (drop_bit (4 * (n div 4)) a)) (n mod 4)"
    by (simp add: bit_take_bit_iff bit_drop_bit_eq nn)
  also have "\<dots> = bit (take_bit 4 (drop_bit (4 * (n div 4)) b)) (n mod 4)"
    using hexdigest_nibbles [OF eq j] by simp
  also have "\<dots> = bit b n"
    by (simp add: bit_take_bit_iff bit_drop_bit_eq nn)
  finally show "bit a n = bit b n" .
qed

text \<open>
  There are more byte strings than digests: any function from byte strings to 256-bit
  words sends two different strings to one word.
\<close>

lemma digest_collision: "\<exists>P P'. P \<noteq> P' \<and> (f :: string \<Rightarrow> 256 word) P = f P'"
proof (rule ccontr)
  assume "\<not> ?thesis"
  then have "inj f" by (auto simp: inj_on_def)
  moreover have "finite (range f)" by (rule finite_subset [OF subset_UNIV]) simp
  ultimately have "finite (UNIV :: string set)" by (rule finite_imageD [rotated])
  then show False by (simp add: infinite_UNIV_listI)
qed

lemma is_ascii_expected: "is_ascii (expected_signature e s b)"
  using is_ascii_hexdigest [of "hmac_sha256 e s b"]
  by (simp add: expected_signature_def is_ascii_def)

lemma expected_nonempty: "expected_signature e s b \<noteq> []"
  by (simp add: expected_signature_def)

lemma expected_eq_iff:
  "expected_signature e s b = expected_signature e s b' \<longleftrightarrow> hmac_sha256 e s b = hmac_sha256 e s b'"
  by (auto simp: expected_signature_def dest: hexdigest_inj)

text \<open>The header a sender holding the secret computes is accepted.\<close>

lemma verify_expected:
  "WEBHOOK_SECRET e = Some s \<Longrightarrow>
   verify_signature e (Some (expected_signature e s b)) b = Inr True"
  by (simp add: verify_signature_def compare_digest_def is_ascii_expected expected_nonempty)

lemma example_secret: "WEBHOOK_SECRET (example_env h u) = Some ''s3cret''"
  by (simp add: example_env_def)

section \<open>Signature verification\<close>

lemma verify_expected_other:
  assumes "WEBHOOK_SECRET e = Some s"
  shows "verify_signature e (Some (expected_signature e s P)) P'
       = Inr (hmac_sha256 e s P' = hmac_sha256 e s P)"
proof -
  have "verify_signature e (Some (expected_signature e s P)) P'
      = compare_digest (expected_signature e s P') (expected_signature e s P)"
    using assms by (simp add: verify_signature_def expected_nonempty)
  also have "\<dots> = Inr (expected_signature e s P' = expected_signature e s P)"
    by (simp add: compare_digest_def is_ascii_expected)
  also have "\<dots> = Inr (hmac_sha256 e s P' = hmac_sha256 e s P)"
    by (simp only: expected_eq_iff)
  finally show ?thesis .
qed

lemma collision_verifies:
  assumes "WEBHOOK_SECRET e = Some s"
  shows "\<exists>P P'. P' \<noteq> P \<and> verify_signature e (Some (expected_signature e s P)) P' = Inr True"
proof -
  from digest_collision [of "hmac_sha256 e s"]
  obtain P P' where ne: "P \<noteq> P'" and eq: "hmac_sha256 e s P = hmac_sha256 e s P'"
    by (elim exE conjE)
  have t: "(hmac_sha256 e s P' = hmac_sha256 e s P) = True"
    by (rule eqTrueI) (rule eq [symmetric])
  have "verify_signature e (Some (expected_signature e s P)) P'
      = Inr (hmac_sha256 e s P' = hmac_sha256 e s P)"
    by (rule verify_expected_other [OF assms])
  then have v: "verify_signature e (Some (expected_signature e s P)) P' = Inr True"
    by (simp only: t)
  have n: "P' \<noteq> P" using ne by (rule not_sym)
  show ?thesis
    by (rule exI [of _ P], rule exI [of _ P'], rule conjI [OF n v])
qed

text \<open>
  Claim C2, as the code has it. With the secret set to \<open>S\<close>, the signature of a payload
  \<open>P\<close> is \<open>sha256=\<close> followed by the hex digest of HMAC-SHA256 of \<open>P\<close> under \<open>S\<close>;
  \<open>verify_signature\<close> accepts it for \<open>P\<close>, and for any payload \<open>P'\<close> it returns
  whether the digest of \<open>P'\<close> equals the digest of \<open>P\<close>: it rejects every payload whose
  digest differs.
\<close>

theorem verify_signature_digest:
  "WEBHOOK_SECRET e = Some s \<Longrightarrow>
     verify_signature e (Some (expected_signature e s P)) P = Inr True
   \<and> verify_signature e (Some (expected_signature e s P)) P'
       = Inr (hmac_sha256 e s P' = hmac_sha256 e s P)"
  by (simp add: verify_expected verify_expected_other)

theorem verify_signature_digest_witness:
  "\<forall>h u. verify_signature (example_env h u)
             (Some (expected_signature (example_env h u) ''s3cret'' example_body)) example_body
           = Inr True
     \<and> verify_signature (example_env h u)
             (Some (expected_signature (example_env h u) ''s3cret'' example_body)) ''{}''
           = Inr (h ''s3cret'' ''{}'' = h ''s3cret'' example_body)"
proof (intro allI)
  fix h u
  have hm: "hmac_sha256 (example_env h u) = h" by (simp add: example_env_def)
  show "verify_signature (example_env h u)
             (Some (expected_signature (example_env h u) ''s3cret'' example_body)) example_body
           = Inr True
     \<and> verify_signature (example_env h u)
             (Some (expected_signature (example_env h u) ''s3cret'' example_body)) ''{}''
           = Inr (h ''s3cret'' ''{}'' = h ''s3cret'' example_body)"
    using verify_signature_digest [OF example_secret, of h u example_body "''{}''"]
    by (simp only: hm)
qed

text \<open>
  Claim C2 as stated fails: whatever the digest function and the secret are, there are
  two different payloads such that the signature of the first verifies the second.
\<close>

theorem verify_signature_collision:
  "\<forall>e s. \<exists>P P'. P' \<noteq> P \<and>
     verify_signature (e\<lparr>WEBHOOK_SECRET := Some s\<rparr>)
       (Some (expected_signature (e\<lparr>WEBHOOK_SECRET := Some s\<rparr>) s P)) P' = Inr True"
proof (intro allI)
  fix e :: env and s
  have sec: "WEBHOOK_SECRET (e\<lparr>WEBHOOK_SECRET := Some s\<rparr>) = Some s" by simp
  show "\<exists>P P'. P' \<noteq> P \<and>
     verify_signature (e\<lparr>WEBHOOK_SECRET := Some s\<rparr>)
       (Some (expected_signature (e\<lparr>WEBHOOK_SECRET := Some s\<rparr>) s P)) P' = Inr True"
    by (rule collision_verifies [OF sec])
qed

section \<open>The webhook pipeline: verification before filtering\<close>

lemma verify_signature_raises:
  "verify_signature e sg b = Inl x \<Longrightarrow> x = AttributeError \<or> x = TypeError"
  by (auto simp: verify_signature_def compare_digest_def split: option.splits if_splits)

lemma dict_get_raises: "dict_get d k v = Inl x \<Longrightarrow> x = AttributeError"
  by (auto simp: dict_get_def split: json.splits)

lemma bind_exn_Inl: "bind_exn m f = Inl x \<Longrightarrow> m = Inl x \<or> (\<exists>v. m = Inr v \<and> f v = Inl x)"
  by (cases m) auto

lemma make_event_record_raises: "make_event_record req p = Inl x \<Longrightarrow> x = AttributeError"
  unfolding make_event_record_def
  by (auto dest!: bind_exn_Inl dest: dict_get_raises)

lemma webhook_400_only_after_verify:
  "http_status (fst (webhook_handler e events_store req)) = 400 \<Longrightarrow>
   verify_signature e (x_hub_signature_256 req) (body req) = Inr True"
proof (cases "verify_signature e (x_hub_signature_256 req) (body req)")
  case (Inl x)
  then have "x = AttributeError \<or> x = TypeError" by (rule verify_signature_raises)
  with Inl have "http_status (fst (webhook_handler e events_store req)) = 500"
    by (auto simp: webhook_handler_def)
  moreover assume "http_status (fst (webhook_handler e events_store req)) = 400"
  ultimately show ?thesis by simp
next
  case (Inr b)
  assume s: "http_status (fst (webhook_handler e events_store req)) = 400"
  show ?thesis
  proof (cases b)
    case True with Inr show ?thesis by simp
  next
    case False
    with Inr have "http_status (fst (webhook_handler e events_store req)) = 401"
      by (simp add: webhook_handler_def)
    with s show ?thesis by simp
  qed
qed

text \<open>
  Claim C5. The event type is looked at only after the signature has been verified: a
  request whose signature \<open>verify_signature\<close> rejects gets 401 with the detail
  \<open>Invalid signature\<close> and leaves the store as it was, whatever its event type; and a
  400 is only ever the answer to a request whose signature was verified.
\<close>

theorem unverified_is_401:
  "(verify_signature e (x_hub_signature_256 req) (body req) = Inr False \<longrightarrow>
      webhook_handler e events_store req
        = (Inl (HTTPException 401 ''Invalid signature''), events_store))
   \<and> (http_status (fst (webhook_handler e events_store req)) = 400 \<longrightarrow>
      verify_signature e (x_hub_signature_256 req) (body req) = Inr True)"
  using webhook_400_only_after_verify [of e events_store req]
  by (simp add: webhook_handler_def)

lemma length_expected: "length (expected_signature e s b) = 71"
  by (simp add: expected_signature_def length_hexdigest)

lemma verify_wrong_length:
  "WEBHOOK_SECRET e = Some s \<Longrightarrow> sg \<noteq> [] \<Longrightarrow> is_ascii sg \<Longrightarrow> length sg \<noteq> 71 \<Longrightarrow>
   verify_signature e (Some sg) b = Inr False"
  using length_expected [of e s b]
  by (auto simp: verify_signature_def compare_digest_def is_ascii_expected)

theorem unverified_is_401_witness:
  "\<forall>h u.
     webhook_handler (example_env h u) []
       \<lparr>body = example_body, x_hub_signature_256 = Some ''sha256=deadbeef'',
        x_github_event = Some ''push'', x_github_delivery = Some ''d-1''\<rparr>
       = (Inl (HTTPException 401 ''Invalid signature''), [])
   \<and> http_status (fst (webhook_handler (example_env h u) []
       \<lparr>body = example_body,
        x_hub_signature_256 = Some (expected_signature (example_env h u) ''s3cret'' example_body),
        x_github_event = Some ''push'', x_github_delivery = Some ''d-1''\<rparr>)) = 400
   \<and> verify_signature (example_env h u)
        (Some (expected_signature (example_env h u) ''s3cret'' example_body)) example_body
       = Inr True"
proof (intro allI)
  fix h u
  let ?e = "example_env h u"
  let ?bad = "\<lparr>body = example_body, x_hub_signature_256 = Some ''sha256=deadbeef'',
        x_github_event = Some ''push'', x_github_delivery = Some ''d-1''\<rparr>"
  let ?good = "\<lparr>body = example_body,
        x_hub_signature_256 = Some (expected_signature ?e ''s3cret'' example_body),
        x_github_event = Some ''push'', x_github_delivery = Some ''d-1''\<rparr>"
  have f: "verify_signature ?e (x_hub_signature_256 ?bad) (body ?bad) = Inr False"
    using verify_wrong_length [OF example_secret, of "''sha256=deadbeef''" h u example_body]
    by (simp add: is_ascii_def)
  have t: "verify_signature ?e (x_hub_signature_256 ?good) (body ?good) = Inr True"
    using verify_expected [OF example_secret, of h u example_body] by simp
  have s: "http_status (fst (webhook_handler ?e [] ?good)) = 400"
    using t by (simp add: webhook_handler_def)
  show "webhook_handler ?e [] ?bad = (Inl (HTTPException 401 ''Invalid signature''), [])
     \<and> http_status (fst (webhook_handler ?e [] ?good)) = 400
     \<and> verify_signature ?e (Some (expected_signature ?e ''s3cret'' example_body)) example_body
         = Inr True"
    using unverified_is_401 [of ?e ?bad "[]"] unverified_is_401 [of ?e ?good "[]"] f s
    by simp
qed

text \<open>
  Claim C4. A request with a valid signature whose event type is not \<open>issues\<close>,
  \<open>issue_comment\<close> or \<open>ping\<close> (an absent header included) gets 400 with the detail
  \<open>Unsupported event\<close>, and the store is unchanged.
\<close>

theorem unsupported_event_400:
  "verify_signature e (x_hub_signature_256 req) (body req) = Inr True \<Longrightarrow>
   x_github_event req \<notin> {Some ''issues'', Some ''issue_comment'', Some ''ping''} \<Longrightarrow>
   webhook_handler e events_store req
     = (Inl (HTTPException 400 ''Unsupported event''), events_store)"
  by (simp add: webhook_handler_def)

theorem unsupported_event_400_witness:
  "\<forall>h u.
     webhook_handler (example_env h u) [example_event (Some ''abc123'')]
       \<lparr>body = example_body,
        x_hub_signature_256 = Some (expected_signature (example_env h u) ''s3cret'' example_body),
        x_github_event = Some ''push'', x_github_delivery = Some ''d-2''\<rparr>
       = (Inl (HTTPException 400 ''Unsupported event''), [example_event (Some ''abc123'')])
   \<and> http_status (fst (webhook_handler (example_env h u) []
       \<lparr>body = example_body,
        x_hub_signature_256 = Some (expected_signature (example_env h u) ''s3cret'' example_body),
        x_github_event = None, x_github_delivery = Some ''d-2''\<rparr>)) = 400"
proof (intro allI)
  fix h u
  let ?e = "example_env h u"
  let ?sg = "Some (expected_signature ?e ''s3cret'' example_body)"
  let ?push = "\<lparr>body = example_body, x_hub_signature_256 = ?sg,
        x_github_event = Some ''push'', x_github_delivery = Some ''d-2''\<rparr>"
  let ?none = "\<lparr>body = example_body, x_hub_signature_256 = ?sg,
        x_github_event = None, x_github_delivery = Some ''d-2''\<rparr>"
  have v: "verify_signature ?e ?sg example_body = Inr True"
    by (rule verify_expected [OF example_secret])
  have a: "webhook_handler ?e [example_event (Some ''abc123'')] ?push
       = (Inl (HTTPException 400 ''Unsupported event''), [example_event (Some ''abc123'')])"
    by (rule unsupported_event_400) (simp_all add: v)
  have b: "webhook_handler ?e [] ?none = (Inl (HTTPException 400 ''Unsupported event''), [])"
    by (rule unsupported_event_400) (simp_all add: v)
  from a b show "webhook_handler ?e [example_event (Some ''abc123'')] ?push
       = (Inl (HTTPException 400 ''Unsupported event''), [example_event (Some ''abc123'')])
     \<and> http_status (fst (webhook_handler ?e [] ?none)) = 400"
    by simp
qed

text \<open>
  Claim C8. An absent or empty signature is rejected at once: \<open>verify_signature\<close>
  returns \<open>False\<close> whatever the secret and the digest function are (also when the
  secret is not set, where computing the digest would raise), and the webhook request
  gets 401 and leaves the store unchanged.
\<close>

theorem absent_signature:
  "sg = None \<or> sg = Some [] \<Longrightarrow>
     verify_signature (e\<lparr>WEBHOOK_SECRET := secret, hmac_sha256 := h\<rparr>) sg b = Inr False
   \<and> webhook_handler e events_store (req\<lparr>x_hub_signature_256 := sg\<rparr>)
       = (Inl (HTTPException 401 ''Invalid signature''), events_store)"
  by (auto simp: verify_signature_def webhook_handler_def)

theorem absent_signature_witness:
  "\<forall>h u.
     verify_signature ((example_env h u)\<lparr>WEBHOOK_SECRET := None, hmac_sha256 := h\<rparr>)
        None example_body = Inr False
   \<and> webhook_handler (example_env h u) [example_event (Some ''abc123'')]
        \<lparr>body = example_body, x_hub_signature_256 = Some '''',
         x_github_event = Some ''issues'', x_github_delivery = Some ''d-1''\<rparr>
       = (Inl (HTTPException 401 ''Invalid signature''), [example_event (Some ''abc123'')])"
proof (intro allI)
  fix h u
  let ?rq = "\<lparr>body = example_body, x_hub_signature_256 = Some '''',
         x_github_event = Some ''issues'', x_github_delivery = Some ''d-1''\<rparr>"
  have n: "(None :: string option) = None \<or> None = Some []" by simp
  have s: "Some [] = (None :: string option) \<or> Some [] = Some ([] :: string)" by simp
  show "verify_signature ((example_env h u)\<lparr>WEBHOOK_SECRET := None, hmac_sha256 := h\<rparr>)
        None example_body = Inr False
   \<and> webhook_handler (example_env h u) [example_event (Some ''abc123'')] ?rq
       = (Inl (HTTPException 401 ''Invalid signature''), [example_event (Some ''abc123'')])"
    using absent_signature [OF n, where e = "example_env h u" and secret = None and h = h
        and b = example_body]
      absent_signature [OF s, where e = "example_env h u" and req = ?rq
        and events_store = "[example_event (Some ''abc123'')]"]
    by simp
qed

section \<open>Deduplication of deliveries\<close>

lemma bind_exn_Inr: "bind_exn m f = Inr y \<Longrightarrow> \<exists>v. m = Inr v \<and> f v = Inr y"
  by (cases m) auto

lemma make_event_record_id:
  "make_event_record req p = Inr r \<Longrightarrow> id' r = x_github_delivery req"
  unfolding make_event_record_def
  by (auto dest!: bind_exn_Inr)







lemma handler_duplicate:
  assumes "list_ex (\<lambda>ev. id' ev = x_github_delivery req) st"
    and "verify_signature e (x_hub_signature_256 req) (body req) = Inr True"
    and "x_github_event req \<in> {Some ''issues'', Some ''issue_comment'', Some ''ping''}"
    and "json_loads e (body req) \<noteq> None"
  shows "webhook_handler e st req = (Inr no_content, st)"
  using assms by (auto simp: webhook_handler_def)

lemma handler_204:
  assumes "http_status (fst (webhook_handler e st req)) = 204"
  shows "verify_signature e (x_hub_signature_256 req) (body req) = Inr True
    \<and> x_github_event req \<in> {Some ''issues'', Some ''issue_comment'', Some ''ping''}
    \<and> json_loads e (body req) \<noteq> None
    \<and> fst (webhook_handler e st req) = Inr no_content
    \<and> list_ex (\<lambda>ev. id' ev = x_github_delivery req) (snd (webhook_handler e st req))"
proof -
  have v: "verify_signature e (x_hub_signature_256 req) (body req) = Inr True"
  proof (cases "verify_signature e (x_hub_signature_256 req) (body req)")
    case (Inl x)
    then have "x = AttributeError \<or> x = TypeError" by (rule verify_signature_raises)
    with Inl have "http_status (fst (webhook_handler e st req)) = 500"
      by (auto simp: webhook_handler_def)
    with assms show ?thesis by simp
  next
    case (Inr b)
    show ?thesis
    proof (cases b)
      case True with Inr show ?thesis by simp
    next
      case False
      with Inr have "http_status (fst (webhook_handler e st req)) = 401"
        by (simp add: webhook_handler_def)
      with assms show ?thesis by simp
    qed
  qed
  have ev: "x_github_event req \<in> {Some ''issues'', Some ''issue_comment'', Some ''ping''}"
  proof (rule ccontr)
    assume "\<not> ?thesis"
    with v have "http_status (fst (webhook_handler e st req)) = 400"
      by (simp add: webhook_handler_def)
    with assms show False by simp
  qed
  have js: "json_loads e (body req) \<noteq> None"
  proof
    assume "json_loads e (body req) = None"
    with v ev have "http_status (fst (webhook_handler e st req)) = 500"
      by (auto simp: webhook_handler_def)
    with assms show False by simp
  qed
  then obtain p where p: "json_loads e (body req) = Some p" by blast
  show ?thesis
  proof (cases "list_ex (\<lambda>ev. id' ev = x_github_delivery req) st")
    case True
    then have "webhook_handler e st req = (Inr no_content, st)"
      using v ev js by (rule handler_duplicate)
    with True v ev js show ?thesis by simp
  next
    case False
    show ?thesis
    proof (cases "make_event_record req p")
      case (Inl x)
      then have "x = AttributeError" by (rule make_event_record_raises)
      with Inl False v ev p have "http_status (fst (webhook_handler e st req)) = 500"
        by (auto simp: webhook_handler_def)
      with assms show ?thesis by simp
    next
      case (Inr r)
      then have "id' r = x_github_delivery req" by (rule make_event_record_id)
      moreover from Inr False v ev p
      have "webhook_handler e st req = (Inr no_content, st @ [r])"
        by (auto simp: webhook_handler_def)
      ultimately show ?thesis using v ev js by (simp add: list_ex_iff)
    qed
  qed
qed













section \<open>GET /events\<close>

lemma get_events_default: "get_events events_store None = get_events events_store (Some 10)"
  by (simp add: get_events_def)

text \<open>A positive limit gives the last \<open>limit\<close> records, all of them when there are fewer.\<close>

lemma get_events_positive:
  assumes "0 < n"
  shows "get_events events_store (Some n) = drop (length events_store - nat n) events_store"
proof -
  have "nat (max (- n + int (length events_store)) 0) = length events_store - nat n"
    using assms by (simp add: max_def) linarith
  then show ?thesis using assms by (simp add: get_events_def slice_from_def Let_def)
qed

text \<open>\<open>events_store[-0:]\<close> is \<open>events_store[0:]\<close>: the whole store.\<close>

lemma get_events_limit_0: "get_events events_store (Some 0) = events_store"
  by (simp add: get_events_def slice_from_def)

text \<open>
  Claim C3, at the inputs where the code departs from it: with two records stored,
  \<open>limit=0\<close> returns both records, not the empty sequence, and \<open>limit=-1\<close> returns the
  last record (the store without its first record), not what \<open>limit=0\<close> should give.
\<close>

theorem get_events_zero:
  "get_events [example_event (Some ''a''), example_event (Some ''b'')] (Some 0)
     = [example_event (Some ''a''), example_event (Some ''b'')]
   \<and> get_events [example_event (Some ''a''), example_event (Some ''b'')] (Some (- 1))
     = [example_event (Some ''b'')]"
  by (simp add: get_events_def slice_from_def)

section \<open>The issue endpoints: validation and status mapping\<close>

lemma exclude_unset_state:
  "upd_state issue = Some v \<Longrightarrow>
   ''state'' \<in> fst ` set (exclude_unset issue)
   \<and> map_of (exclude_unset issue) ''state'' = Some (json_of_opt v)"
  by (simp add: exclude_unset_def set_field_def map_add_def split: option.splits)

lemma json_of_opt_state:
  "v \<notin> {Some ''open'', Some ''closed''} \<Longrightarrow>
   json_of_opt v \<noteq> JStr ''open'' \<and> json_of_opt v \<noteq> JStr ''closed''"
  by (cases v) (simp_all add: json_of_opt_def)

text \<open>
  Claim C6. When the body of PATCH /issues/{number} sets \<open>state\<close> to anything but
  \<open>open\<close> or \<open>closed\<close> (null included), the handler raises the 400 with the detail
  \<open>state must be 'open' or 'closed'\<close>, and the list of requests it sent upstream is
  empty: no outbound call is made.
\<close>

theorem invalid_state_rejected:
  "upd_state issue = Some v \<Longrightarrow> v \<notin> {Some ''open'', Some ''closed''} \<Longrightarrow>
   update_issue e number issue = ([], Inl (HTTPException 400 state_detail))"
  using exclude_unset_state [of issue v] json_of_opt_state [of v]
  by (simp add: update_issue_def Let_def)

theorem invalid_state_rejected_witness:
  "\<forall>e n.
     update_issue e n \<lparr>upd_title = None, upd_body = None, upd_state = Some (Some ''archived'')\<rparr>
       = ([], Inl (HTTPException 400 state_detail))
   \<and> update_issue e n \<lparr>upd_title = Some (Some ''t''), upd_body = None, upd_state = Some None\<rparr>
       = ([], Inl (HTTPException 400 state_detail))"
proof (intro allI)
  fix e n
  show "update_issue e n \<lparr>upd_title = None, upd_body = None, upd_state = Some (Some ''archived'')\<rparr>
       = ([], Inl (HTTPException 400 state_detail))
   \<and> update_issue e n \<lparr>upd_title = Some (Some ''t''), upd_body = None, upd_state = Some None\<rparr>
       = ([], Inl (HTTPException 400 state_detail))"
    using invalid_state_rejected
        [of "\<lparr>upd_title = None, upd_body = None, upd_state = Some (Some ''archived'')\<rparr>"
          "Some ''archived''" e n]
      invalid_state_rejected
        [of "\<lparr>upd_title = Some (Some ''t''), upd_body = None, upd_state = Some None\<rparr>"
          None e n]
    by simp
qed

text \<open>
  A body that leaves \<open>state\<close> unset, or sets it to \<open>open\<close> or \<open>closed\<close>, is forwarded:
  exactly one PATCH goes upstream.
\<close>

lemma valid_state_forwarded:
  "upd_state issue \<in> {None, Some (Some ''open''), Some (Some ''closed'')} \<Longrightarrow>
   fst (update_issue e number issue) = [update_request e number issue]"
  by (auto simp: update_issue_def Let_def exclude_unset_def set_field_def json_of_opt_def
      map_add_def image_iff split: option.splits)

lemma example_upstream: "upstream (example_env h u) = u"
  by (simp add: example_env_def)

lemma example_loads_issue:
  "json_loads (example_env h u) example_issue_text = Some example_issue_json"
  by (simp add: example_env_def example_loads_def example_issue_text_def example_body_def)

lemma example_labels: "extract_labels example_issue_json = Inr (JArr [JStr ''ui''])"
  by (simp add: extract_labels_def example_issue_json_def dict_get_def py_iter_def subscript_def)

lemma str_int_42: "str_int 42 = ''42''"
  by (simp add: str_int_def str_nat.simps digit_char_def)





lemma created_response_Inr:
  assumes "created_response e data = Inr resp"
    and "subscript data ''number'' = Inr n"
  shows "status_code resp = 201
    \<and> headers resp = [(''Location'', ''/issues/'' @ py_str e n)]
    \<and> subscript (content resp) ''number'' = Inr n"
  using assms unfolding created_response_def
  by (auto dest!: bind_exn_Inr simp: subscript_def)

lemma created_response_total:
  assumes "subscript data ''number'' = Inr n" "subscript data ''title'' = Inr t"
    "dict_get data ''body'' JNull = Inr b" "subscript data ''state'' = Inr st"
    "extract_labels data = Inr ls" "subscript data ''html_url'' = Inr hu"
    "subscript data ''created_at'' = Inr ca" "subscript data ''updated_at'' = Inr ua"
  shows "created_response e data =
     Inr \<lparr>status_code = 201, headers = [(''Location'', ''/issues/'' @ py_str e n)],
          content = JObj
            [(''number'', n), (''title'', t), (''body'', b), (''state'', st),
             (''labels'', ls), (''html_url'', hu), (''created_at'', ca),
             (''updated_at'', ua)]\<rparr>"
  using assms by (simp add: created_response_def)

text \<open>
  Claim C9. When the upstream answers POST /issues with 201 and a body that parses to
  an issue object whose \<open>number\<close> is the integer \<open>N\<close>, every response the handler returns
  has status 201, the single header \<open>Location: /issues/N\<close> and a body whose \<open>number\<close>
  field is \<open>N\<close>; and the handler does return that response, with the eight translated
  fields, when the object has the fields the handler reads.
\<close>

theorem create_issue_created:
  assumes "upstream e (create_request e issue) = Some r"
    and "up_status r = 201"
    and "json_loads e (up_text r) = Some data"
    and "subscript data ''number'' = Inr (JInt N)"
  shows "(\<forall>resp. snd (create_issue e issue) = Inr resp \<longrightarrow>
            status_code resp = 201
          \<and> headers resp = [(''Location'', ''/issues/'' @ str_int N)]
          \<and> subscript (content resp) ''number'' = Inr (JInt N))
     \<and> (subscript data ''title'' = Inr t \<and> dict_get data ''body'' JNull = Inr b
          \<and> subscript data ''state'' = Inr st \<and> extract_labels data = Inr ls
          \<and> subscript data ''html_url'' = Inr hu \<and> subscript data ''created_at'' = Inr ca
          \<and> subscript data ''updated_at'' = Inr ua \<longrightarrow>
          snd (create_issue e issue) =
            Inr \<lparr>status_code = 201, headers = [(''Location'', ''/issues/'' @ str_int N)],
                 content = JObj
                   [(''number'', JInt N), (''title'', t), (''body'', b), (''state'', st),
                    (''labels'', ls), (''html_url'', hu), (''created_at'', ca),
                    (''updated_at'', ua)]\<rparr>)"
proof -
  have c: "snd (create_issue e issue) = created_response e data"
    using assms(1-3) by (simp add: create_issue_def Let_def response_json_def)
  have p: "py_str e (JInt N) = str_int N" by (simp add: py_str_def)
  show ?thesis
  proof (intro conjI allI impI)
    fix resp assume "snd (create_issue e issue) = Inr resp"
    with c have "created_response e data = Inr resp" by simp
    from created_response_Inr [OF this assms(4)] p
    show "status_code resp = 201"
      and "headers resp = [(''Location'', ''/issues/'' @ str_int N)]"
      and "subscript (content resp) ''number'' = Inr (JInt N)" by simp_all
  next
    assume f: "subscript data ''title'' = Inr t \<and> dict_get data ''body'' JNull = Inr b
          \<and> subscript data ''state'' = Inr st \<and> extract_labels data = Inr ls
          \<and> subscript data ''html_url'' = Inr hu \<and> subscript data ''created_at'' = Inr ca
          \<and> subscript data ''updated_at'' = Inr ua"
    have "created_response e data =
       Inr \<lparr>status_code = 201, headers = [(''Location'', ''/issues/'' @ py_str e (JInt N))],
            content = JObj
              [(''number'', JInt N), (''title'', t), (''body'', b), (''state'', st),
               (''labels'', ls), (''html_url'', hu), (''created_at'', ca),
               (''updated_at'', ua)]\<rparr>"
      by (rule created_response_total) (use assms(4) f in simp_all)
    with c p show "snd (create_issue e issue) =
            Inr \<lparr>status_code = 201, headers = [(''Location'', ''/issues/'' @ str_int N)],
                 content = JObj
                   [(''number'', JInt N), (''title'', t), (''body'', b), (''state'', st),
                    (''labels'', ls), (''html_url'', hu), (''created_at'', ca),
                    (''updated_at'', ua)]\<rparr>" by simp
  qed
qed

theorem create_issue_created_witness:
  "\<forall>h. snd (create_issue (example_env h (answers 201 example_issue_text)) example_issue)
       = Inr \<lparr>status_code = 201, headers = [(''Location'', ''/issues/42'')],
              content = JObj
                [(''number'', JInt 42), (''title'', JStr ''bug''), (''body'', JNull),
                 (''state'', JStr ''open''), (''labels'', JArr [JStr ''ui'']),
                 (''html_url'', JStr ''https://github.com/octo/demo/issues/42''),
                 (''created_at'', JStr ''2024-05-01T10:00:00Z''),
                 (''updated_at'', JStr ''2024-05-01T10:00:05Z'')]\<rparr>"
proof (intro allI)
  fix h
  let ?e = "example_env h (answers 201 example_issue_text)"
  let ?r = "\<lparr>up_status = 201, up_text = example_issue_text, up_headers = []\<rparr>"
  have u: "upstream ?e (create_request ?e example_issue) = Some ?r"
    by (simp add: example_upstream answers_def)
  have s: "up_status ?r = 201" by simp
  have j: "json_loads ?e (up_text ?r) = Some example_issue_json"
    using example_loads_issue [of h "answers 201 example_issue_text"] by simp
  have n: "subscript example_issue_json ''number'' = Inr (JInt 42)"
    by (simp add: example_issue_json_def subscript_def)
  have f: "subscript example_issue_json ''title'' = Inr (JStr ''bug'')
      \<and> dict_get example_issue_json ''body'' JNull = Inr JNull
      \<and> subscript example_issue_json ''state'' = Inr (JStr ''open'')
      \<and> extract_labels example_issue_json = Inr (JArr [JStr ''ui''])
      \<and> subscript example_issue_json ''html_url''
          = Inr (JStr ''https://github.com/octo/demo/issues/42'')
      \<and> subscript example_issue_json ''created_at'' = Inr (JStr ''2024-05-01T10:00:00Z'')
      \<and> subscript example_issue_json ''updated_at'' = Inr (JStr ''2024-05-01T10:00:05Z'')"
    using example_labels by (simp add: example_issue_json_def subscript_def dict_get_def)
  from create_issue_created [OF u s j n, THEN conjunct2, rule_format, OF f]
  show "snd (create_issue ?e example_issue)
       = Inr \<lparr>status_code = 201, headers = [(''Location'', ''/issues/42'')],
              content = JObj
                [(''number'', JInt 42), (''title'', JStr ''bug''), (''body'', JNull),
                 (''state'', JStr ''open''), (''labels'', JArr [JStr ''ui'']),
                 (''html_url'', JStr ''https://github.com/octo/demo/issues/42''),
                 (''created_at'', JStr ''2024-05-01T10:00:00Z''),
                 (''updated_at'', JStr ''2024-05-01T10:00:05Z'')]\<rparr>"
    by (simp add: str_int_42)
qed

end
